theory Spec2Isabelle
  imports Main "HOL-Library.Sublist"
begin

section \<open>Python values\<close>

text \<open>
  Python strings are modelled as \<open>string\<close>. The exceptions that the modelled code, or the
  library calls it makes, can raise are values of \<open>error\<close>; a computation that may raise
  returns \<open>error + 'a\<close>, with \<open>Inl\<close> for the exception.
\<close>

datatype error = KeyError | ValueError | TypeError

text \<open>\<open>d[k]\<close> on a dict: raises KeyError when the key is missing.\<close>

definition subscript :: "('k \<rightharpoonup> 'v) \<Rightarrow> 'k \<Rightarrow> error + 'v" where
  "subscript d k = (case d k of None \<Rightarrow> Inl KeyError | Some v \<Rightarrow> Inr v)"

section \<open>AffiliateLinkGenerator\<close>

text \<open>
  \<^verbatim>\<open>class AffiliateLinkGenerator\<close> of \<^verbatim>\<open>examples/glamify_scraper_example.py\<close>: an
  instance has one attribute, the dict \<^verbatim>\<open>affiliate_ids\<close>.
\<close>

record affiliate_link_generator =
  affiliate_ids :: "string \<rightharpoonup> string"

text \<open>\<^verbatim>\<open>__init__\<close>: the table of the three placeholder affiliate ids.\<close>

definition init :: affiliate_link_generator where
  "init = \<lparr>affiliate_ids =
     [''sephora'' \<mapsto> ''your_sephora_affiliate_id'',
      ''amazon'' \<mapsto> ''your_amazon_affiliate_id'',
      ''namshi'' \<mapsto> ''your_namshi_affiliate_id'']\<rparr>"

text \<open>
  \<^verbatim>\<open>generate_link(self, platform, product_url)\<close>, branch by branch. The f-strings are
  concatenations; \<^verbatim>\<open>'?' in product_url\<close> is membership of the character.
\<close>

definition generate_link :: "affiliate_link_generator \<Rightarrow> string \<Rightarrow> string \<Rightarrow> error + string" where
  "generate_link self platform product_url =
     (if platform \<notin> dom (affiliate_ids self) then Inr product_url
      else
        (case subscript (affiliate_ids self) platform of
          Inl e \<Rightarrow> Inl e
        | Inr affiliate_id \<Rightarrow>
            if platform = ''sephora'' then
              (let separator = (if CHR ''?'' \<in> set product_url then ''&'' else ''?'')
               in Inr (product_url @ separator @ ''affiliate='' @ affiliate_id))
            else if platform = ''amazon'' then
              Inr (product_url @ ''?tag='' @ affiliate_id)
            else Inr product_url))"

text \<open>
  The method with the instance as state. A method body is a program that takes the
  instance and returns its result, or the exception it raised, together with the instance
  it leaves behind. The body of \<^verbatim>\<open>generate_link\<close> reaches the instance through two operations
  of the dict, \<^verbatim>\<open>platform in self.affiliate_ids\<close> and \<^verbatim>\<open>self.affiliate_ids[platform]\<close>.
  \<open>dict_setitem\<close> is the assignment \<^verbatim>\<open>self.affiliate_ids[key] = value\<close>, the operation by
  which a body would change the table; \<^verbatim>\<open>generate_link\<close> has none.
\<close>

type_synonym 'a prog = "affiliate_link_generator \<Rightarrow> (error + 'a) \<times> affiliate_link_generator"

definition returns :: "'a \<Rightarrow> 'a prog" where
  "returns x = (\<lambda>self. (Inr x, self))"

definition and_then :: "'a prog \<Rightarrow> ('a \<Rightarrow> 'b prog) \<Rightarrow> 'b prog" where
  "and_then m f =
     (\<lambda>self. case m self of (Inl e, self') \<Rightarrow> (Inl e, self') | (Inr x, self') \<Rightarrow> f x self')"

definition dict_contains :: "string \<Rightarrow> bool prog" where
  "dict_contains key = (\<lambda>self. (Inr (key \<in> dom (affiliate_ids self)), self))"

definition dict_getitem :: "string \<Rightarrow> string prog" where
  "dict_getitem key = (\<lambda>self. (subscript (affiliate_ids self) key, self))"

definition dict_setitem :: "string \<Rightarrow> string \<Rightarrow> unit prog" where
  "dict_setitem key v =
     (\<lambda>self. (Inr (), self\<lparr>affiliate_ids := (affiliate_ids self)(key \<mapsto> v)\<rparr>))"

text \<open>The body of \<^verbatim>\<open>generate_link\<close>, statement by statement, as such a program.\<close>

definition generate_link_method :: "string \<Rightarrow> string \<Rightarrow> string prog" where
  "generate_link_method platform product_url =
     and_then (dict_contains platform) (\<lambda>present.
       if \<not> present then returns product_url
       else
         and_then (dict_getitem platform) (\<lambda>affiliate_id.
           if platform = ''sephora'' then
             (let separator = (if CHR ''?'' \<in> set product_url then ''&'' else ''?'')
              in returns (product_url @ separator @ ''affiliate='' @ affiliate_id))
           else if platform = ''amazon'' then
             returns (product_url @ ''?tag='' @ affiliate_id)
           else returns product_url))"

text \<open>
  A sequence of calls on one instance, each given as a pair of platform and product URL:
  every call runs on the instance the call before it left behind.
\<close>

fun run_calls ::
  "affiliate_link_generator \<Rightarrow> (string \<times> string) list \<Rightarrow> (error + string) list \<times> affiliate_link_generator" where
  "run_calls self [] = ([], self)"
| "run_calls self ((platform, product_url) # calls) =
     (case generate_link_method platform product_url self of
        (r, self') \<Rightarrow> (case run_calls self' calls of (rs, self'') \<Rightarrow> (r # rs, self'')))"

section \<open>BeautyProductSpider\<close>

text \<open>
  \<^verbatim>\<open>BeautyProductSpider.parse(self, response)\<close> works on objects of the Scrapy library, which
  is not part of the repository. They are modelled by what the code asks of them.

  A selector (parsel's \<^verbatim>\<open>Selector\<close>) answers \<^verbatim>\<open>.get()\<close> with the string it selected and
  \<^verbatim>\<open>.css(query)\<close> with the list of selectors the query matches below it, in document
  order. \<^verbatim>\<open>.get()\<close> on such a list (parsel's \<^verbatim>\<open>SelectorList\<close>) is the \<^verbatim>\<open>.get()\<close> of its first
  element, or \<^verbatim>\<open>None\<close> when the list is empty.
\<close>

datatype selector = Selector (sel_get: string) (sel_css: "string \<Rightarrow> selector list")

definition get :: "selector list \<Rightarrow> string option" where
  "get sl = (case sl of [] \<Rightarrow> None | s # _ \<Rightarrow> Some (sel_get s))"

text \<open>
  The callback of a request is a bound method of the spider, modelled by the name of the
  method; \<^verbatim>\<open>parse\<close> passes \<^verbatim>\<open>self.parse\<close>. A request is identified by the URL and the callback
  it was built with.
\<close>

type_synonym callback = string

datatype request = Request (req_url: string) (req_callback: callback)

text \<open>
  The response, by the three methods \<^verbatim>\<open>parse\<close> calls: \<^verbatim>\<open>response.css(query)\<close>,
  \<^verbatim>\<open>response.urljoin(url)\<close> and \<^verbatim>\<open>response.follow(url, callback)\<close>. The last two may raise;
  \<^verbatim>\<open>urljoin\<close> is handed whatever \<^verbatim>\<open>.get()\<close> returned, a string or \<^verbatim>\<open>None\<close>.
\<close>

record response =
  css :: "string \<Rightarrow> selector list"
  urljoin :: "string option \<Rightarrow> error + string option"
  follow :: "string \<Rightarrow> callback \<Rightarrow> error + request"

text \<open>
  What the generator \<^verbatim>\<open>parse\<close> yields: a dict (its items in insertion order, a value being a
  string or \<^verbatim>\<open>None\<close>) or a request. A run of the generator is the list of what it yielded
  and the exception that ended it, if one did.
\<close>

datatype yielded = Item "(string \<times> string option) list" | Follow request

text \<open>The dict literal of the loop body, given the value computed for \<^verbatim>\<open>'url'\<close>.\<close>

definition item :: "selector \<Rightarrow> string option \<Rightarrow> (string \<times> string option) list" where
  "item product url =
     [(''name'', get (sel_css product ''.product-name::text'')),
      (''price'', get (sel_css product ''.product-price::text'')),
      (''rating'', get (sel_css product ''.product-rating::attr(data-rating)'')),
      (''image_url'', get (sel_css product ''.product-image img::attr(src)'')),
      (''description'', get (sel_css product ''.product-description::text'')),
      (''brand'', get (sel_css product ''.product-brand::text'')),
      (''category'', get (sel_css product ''.product-category::text'')),
      (''url'', url)]"

text \<open>
  \<^verbatim>\<open>for product in products: yield {...}\<close>. The only call of the body that can raise is
  \<^verbatim>\<open>response.urljoin\<close>; when it does, nothing is yielded for that element and the generator
  ends with the exception.
\<close>

fun product_loop :: "response \<Rightarrow> selector list \<Rightarrow> yielded list \<times> error option" where
  "product_loop response [] = ([], None)"
| "product_loop response (product # products) =
     (case urljoin response (get (sel_css product ''.product-link::attr(href)'')) of
        Inl e \<Rightarrow> ([], Some e)
      | Inr url \<Rightarrow>
          (case product_loop response products of
             (ys, r) \<Rightarrow> (Item (item product url) # ys, r)))"

text \<open>
  \<^verbatim>\<open>parse\<close>: the loop over \<^verbatim>\<open>response.css('.product-item')\<close>, then the pagination link.
  \<^verbatim>\<open>if next_page:\<close> is false for \<^verbatim>\<open>None\<close> and for the empty string.
\<close>

definition parse :: "response \<Rightarrow> yielded list \<times> error option" where
  "parse response =
     (let products = css response ''.product-item'' in
      case product_loop response products of
        (ys, Some e) \<Rightarrow> (ys, Some e)
      | (ys, None) \<Rightarrow>
          (case get (css response ''.next-page::attr(href)'') of
             None \<Rightarrow> (ys, None)
           | Some next_page \<Rightarrow>
               if next_page = [] then (ys, None)
               else
                 (case follow response next_page ''parse'' of
                    Inl e \<Rightarrow> (ys, Some e)
                  | Inr request \<Rightarrow> (ys @ [Follow request], None))))"

text \<open>
  The seven fields whose value is the \<^verbatim>\<open>.get()\<close> of a selector, each with its selector, and
  the predicate that tells a yielded request from a yielded dict; both serve to state
  the properties below.
\<close>

definition text_fields :: "(string \<times> string) list" where
  "text_fields =
     [(''name'', ''.product-name::text''),
      (''price'', ''.product-price::text''),
      (''rating'', ''.product-rating::attr(data-rating)''),
      (''image_url'', ''.product-image img::attr(src)''),
      (''description'', ''.product-description::text''),
      (''brand'', ''.product-brand::text''),
      (''category'', ''.product-category::text'')]"


text \<open>
  The record of a product element as the specification describes it: the seven selected
  values in the order of \<open>text_fields\<close>, then the resolved URL. \<open>record_of\<close> holds of a
  product element and a yielded value when URL resolution succeeds for the element and
  the value is that record.
\<close>

definition record_of :: "response \<Rightarrow> selector \<Rightarrow> yielded \<Rightarrow> bool" where
  "record_of response product y =
     (case urljoin response (get (sel_css product ''.product-link::attr(href)'')) of
        Inl e \<Rightarrow> False
      | Inr url \<Rightarrow>
          y = Item (map (\<lambda>(k, q). (k, get (sel_css product q))) text_fields @ [(''url'', url)]))"


section \<open>The library behind the response\<close>

text \<open>
  For a concrete page the methods of the response are those of Scrapy's
  \<^verbatim>\<open>TextResponse\<close>: \<^verbatim>\<open>urljoin(url)\<close> is \<^verbatim>\<open>urllib.parse.urljoin(base, url)\<close> for the base URL
  of the page. The functions below follow \<^verbatim>\<open>urllib/parse.py\<close> of CPython 3.11 on
  strings, function by function. Two validations of that module are outside the model
  and are taken as parameters: \<^verbatim>\<open>_check_bracketed_host\<close> (an address parser) and the
  normalisation test of \<^verbatim>\<open>_checknetloc\<close> for a host with non-ASCII characters.
\<close>

definition uses_relative :: "string list" where
  "uses_relative = ['''', ''ftp'', ''http'', ''gopher'', ''nntp'', ''imap'',
     ''wais'', ''file'', ''https'', ''shttp'', ''mms'',
     ''prospero'', ''rtsp'', ''rtsps'', ''rtspu'', ''sftp'',
     ''svn'', ''svn+ssh'', ''ws'', ''wss'']"

definition uses_netloc :: "string list" where
  "uses_netloc = ['''', ''ftp'', ''http'', ''gopher'', ''nntp'', ''telnet'',
     ''imap'', ''wais'', ''file'', ''mms'', ''https'', ''shttp'',
     ''snews'', ''prospero'', ''rtsp'', ''rtsps'', ''rtspu'', ''rsync'',
     ''svn'', ''svn+ssh'', ''sftp'', ''nfs'', ''git'', ''git+ssh'',
     ''ws'', ''wss'']"

definition uses_params :: "string list" where
  "uses_params = ['''', ''ftp'', ''hdl'', ''prospero'', ''http'', ''imap'',
     ''https'', ''shttp'', ''rtsp'', ''rtsps'', ''rtspu'', ''sip'',
     ''sips'', ''mms'', ''sftp'', ''tel'']"

definition scheme_chars :: string where
  "scheme_chars = ''abcdefghijklmnopqrstuvwxyz'' @ ''ABCDEFGHIJKLMNOPQRSTUVWXYZ'' @
     ''0123456789'' @ ''+-.''"

definition c0_control_or_space :: "char \<Rightarrow> bool" where
  "c0_control_or_space c = ((of_char c :: nat) \<le> 32)"

definition unsafe_url_byte :: "char \<Rightarrow> bool" where
  "unsafe_url_byte c = (c \<in> set [CHR 0x09, CHR 0x0D, CHR 0x0A])"

definition is_ascii :: "char \<Rightarrow> bool" where
  "is_ascii c = ((of_char c :: nat) < 128)"

definition ascii_letter :: "char \<Rightarrow> bool" where
  "ascii_letter c = (let n = (of_char c :: nat) in (65 \<le> n \<and> n \<le> 90) \<or> (97 \<le> n \<and> n \<le> 122))"

definition lower :: "string \<Rightarrow> string" where
  "lower s = map (\<lambda>c. let n = (of_char c :: nat) in
                      if 65 \<le> n \<and> n \<le> 90 then char_of (n + 32) else c) s"

text \<open>\<open>s.split(c, 1)\<close> for a string that contains \<open>c\<close>, and the two parts around the
  first \<open>c\<close> in general.\<close>

definition before :: "char \<Rightarrow> string \<Rightarrow> string" where
  "before c s = takeWhile (\<lambda>x. x \<noteq> c) s"

definition after :: "char \<Rightarrow> string \<Rightarrow> string" where
  "after c s = drop 1 (dropWhile (\<lambda>x. x \<noteq> c) s)"

text \<open>
  \<^verbatim>\<open>s.split(c)\<close> and \<^verbatim>\<open>sep.join(parts)\<close>.
\<close>

fun split :: "char \<Rightarrow> string \<Rightarrow> string list" where
  "split c [] = [[]]"
| "split c (x # xs) =
     (if x = c then [] # split c xs
      else (case split c xs of [] \<Rightarrow> [[x]] | p # ps \<Rightarrow> (x # p) # ps))"

fun join :: "string \<Rightarrow> string list \<Rightarrow> string" where
  "join sep [] = []"
| "join sep [p] = p"
| "join sep (p # ps) = p @ sep @ join sep ps"

text \<open>
  The two validations taken as parameters: each tells whether the library's check
  passes, that is, does not raise.
\<close>

record url_checks =
  bracketed_host_ok :: "string \<Rightarrow> bool"
  nfkc_netloc_ok :: "string \<Rightarrow> bool"

text \<open>
  \<^verbatim>\<open>_checknetloc\<close> returns at once for an empty or all-ASCII host; \<^verbatim>\<open>_splitnetloc(url, 2)\<close>, both parts of the
  result, with the start position 2 of its only call.
\<close>

definition checknetloc :: "url_checks \<Rightarrow> string \<Rightarrow> bool" where
  "checknetloc chk netloc = (netloc = [] \<or> list_all is_ascii netloc \<or> nfkc_netloc_ok chk netloc)"

definition splitnetloc :: "string \<Rightarrow> string \<times> string" where
  "splitnetloc url =
     (let s = drop 2 url; delim = (\<lambda>c. c \<in> set ''/?#'')
      in (takeWhile (\<lambda>c. \<not> delim c) s, dropWhile (\<lambda>c. \<not> delim c) s))"

text \<open>
  \<^verbatim>\<open>urlsplit(url, scheme)\<close> with \<^verbatim>\<open>allow_fragments=True\<close>: strip and clean the arguments, split off
  a scheme, then a network location when the rest starts with \<^verbatim>\<open>//\<close>, raise \<^verbatim>\<open>ValueError\<close>
  for a bracket without its partner or a bracketed host the library rejects, then split
  off the fragment and the query. The result is the tuple
  (scheme, netloc, path, query, fragment).
\<close>

definition urlsplit ::
  "url_checks \<Rightarrow> string \<Rightarrow> string \<Rightarrow> error + (string \<times> string \<times> string \<times> string \<times> string)" where
  "urlsplit chk url0 scheme0 =
     (let url1 = filter (\<lambda>c. \<not> unsafe_url_byte c) (dropWhile c0_control_or_space url0);
          scheme1 = filter (\<lambda>c. \<not> unsafe_url_byte c)
                      (rev (dropWhile c0_control_or_space
                         (rev (dropWhile c0_control_or_space scheme0))));
          pre = before CHR '':'' url1;
          (scheme, url2) =
            (if CHR '':'' \<in> set url1 \<and> pre \<noteq> [] \<and> is_ascii (hd url1) \<and> ascii_letter (hd url1) \<and>
                list_all (\<lambda>c. c \<in> set scheme_chars) pre
             then (lower pre, after CHR '':'' url1) else (scheme1, url1));
          (netloc, url3) = (if take 2 url2 = ''//'' then splitnetloc url2 else ([], url2));
          lb = CHR ''['' \<in> set netloc; rb = CHR '']'' \<in> set netloc
      in if (lb \<and> \<not> rb) \<or> (rb \<and> \<not> lb) then Inl ValueError
         else if lb \<and> rb \<and> \<not> bracketed_host_ok chk (before CHR '']'' (after CHR ''['' netloc))
         then Inl ValueError
         else
           (let (url4, fragment) =
                  (if CHR ''#'' \<in> set url3 then (before CHR ''#'' url3, after CHR ''#'' url3)
                   else (url3, []));
                (url5, query) =
                  (if CHR ''?'' \<in> set url4 then (before CHR ''?'' url4, after CHR ''?'' url4)
                   else (url4, []))
            in if checknetloc chk netloc then Inr (scheme, netloc, url5, query, fragment)
               else Inl ValueError))"

text \<open>
  \<^verbatim>\<open>_splitparams(url)\<close>, called on a path that contains \<^verbatim>\<open>;\<close>, and \<^verbatim>\<open>urlparse(url, scheme)\<close>.
\<close>

definition splitparams :: "string \<Rightarrow> string \<times> string" where
  "splitparams url =
     (if CHR ''/'' \<in> set url then
        (let k = length url - Suc (length (before CHR ''/'' (rev url)));
             tail = drop k url
         in if CHR '';'' \<notin> set tail then (url, [])
            else (let i = k + length (before CHR '';'' tail)
                  in (take i url, drop (Suc i) url)))
      else (before CHR '';'' url, after CHR '';'' url))"

definition urlparse ::
  "url_checks \<Rightarrow> string \<Rightarrow> string \<Rightarrow>
     error + (string \<times> string \<times> string \<times> string \<times> string \<times> string)" where
  "urlparse chk url scheme0 =
     (case urlsplit chk url scheme0 of
        Inl e \<Rightarrow> Inl e
      | Inr (scheme, netloc, url', query, fragment) \<Rightarrow>
          (let (url'', params) =
                 (if scheme \<in> set uses_params \<and> CHR '';'' \<in> set url' then splitparams url'
                  else (url', []))
           in Inr (scheme, netloc, url'', params, query, fragment)))"

text \<open>
  \<^verbatim>\<open>urlunsplit\<close> and \<^verbatim>\<open>urlunparse\<close>.
\<close>

definition urlunsplit :: "string \<Rightarrow> string \<Rightarrow> string \<Rightarrow> string \<Rightarrow> string \<Rightarrow> string" where
  "urlunsplit scheme netloc url0 query fragment =
     (let url1 =
            (if netloc \<noteq> [] \<or> (scheme \<noteq> [] \<and> scheme \<in> set uses_netloc) \<or> take 2 url0 = ''//''
             then ''//'' @ netloc @
                    (if url0 \<noteq> [] \<and> take 1 url0 \<noteq> ''/'' then ''/'' @ url0 else url0)
             else url0);
          url2 = (if scheme \<noteq> [] then scheme @ '':'' @ url1 else url1);
          url3 = (if query \<noteq> [] then url2 @ ''?'' @ query else url2)
      in if fragment \<noteq> [] then url3 @ ''#'' @ fragment else url3)"

definition urlunparse ::
  "string \<Rightarrow> string \<Rightarrow> string \<Rightarrow> string \<Rightarrow> string \<Rightarrow> string \<Rightarrow> string" where
  "urlunparse scheme netloc url params query fragment =
     urlunsplit scheme netloc (if params \<noteq> [] then url @ '';'' @ params else url) query fragment"

text \<open>
  The body of the loop over the path segments of \<^verbatim>\<open>urljoin\<close> (\<^verbatim>\<open>pop\<close> on an empty list is
  caught and ignored there), and the slice assignment
  \<^verbatim>\<open>segments[1:-1] = filter(None, segments[1:-1])\<close>.
\<close>

definition resolve_step :: "string list \<Rightarrow> string \<Rightarrow> string list" where
  "resolve_step resolved_path seg =
     (if seg = ''..'' then butlast resolved_path
      else if seg = ''.'' then resolved_path
      else resolved_path @ [seg])"

definition squeeze :: "string list \<Rightarrow> string list" where
  "squeeze segments =
     (case segments of
        [] \<Rightarrow> []
      | [s] \<Rightarrow> [s]
      | s # rest \<Rightarrow> s # filter (\<lambda>x. x \<noteq> []) (butlast rest) @ [last rest])"

text \<open>
  \<^verbatim>\<open>urljoin(base, url)\<close>. The second argument may be \<^verbatim>\<open>None\<close>, as \<^verbatim>\<open>parse\<close> hands it over;
  the two tests at the top return before anything is parsed, and with an empty base and
  \<^verbatim>\<open>None\<close> the result is \<^verbatim>\<open>None\<close>.
\<close>

definition py_urljoin :: "url_checks \<Rightarrow> string \<Rightarrow> string option \<Rightarrow> error + string option" where
  "py_urljoin chk base url_arg =
     (if base = [] then Inr url_arg
      else
        (case url_arg of
           None \<Rightarrow> Inr (Some base)
         | Some url \<Rightarrow>
             if url = [] then Inr (Some base)
             else
               (case urlparse chk base [] of
                  Inl e \<Rightarrow> Inl e
                | Inr (bscheme, bnetloc, bpath, bparams, bquery, bfragment) \<Rightarrow>
                    (case urlparse chk url bscheme of
                       Inl e \<Rightarrow> Inl e
                     | Inr (scheme, netloc0, path, params, query, fragment) \<Rightarrow>
                         if scheme \<noteq> bscheme \<or> scheme \<notin> set uses_relative then Inr (Some url)
                         else if scheme \<in> set uses_netloc \<and> netloc0 \<noteq> [] then
                           Inr (Some (urlunparse scheme netloc0 path params query fragment))
                         else
                           (let netloc = (if scheme \<in> set uses_netloc then bnetloc else netloc0)
                            in if path = [] \<and> params = [] then
                                 Inr (Some (urlunparse scheme netloc bpath bparams
                                        (if query = [] then bquery else query) fragment))
                               else
                                 (let base_parts0 = split CHR ''/'' bpath;
                                      base_parts =
                                        (if last base_parts0 \<noteq> [] then butlast base_parts0
                                         else base_parts0);
                                      segments =
                                        (if take 1 path = ''/'' then split CHR ''/'' path
                                         else squeeze (base_parts @ split CHR ''/'' path));
                                      resolved0 = foldl resolve_step [] segments;
                                      resolved_path =
                                        (if last segments \<in> set [''.'', ''..''] then resolved0 @ [[]]
                                         else resolved0);
                                      joined = join ''/'' resolved_path
                                  in Inr (Some (urlunparse scheme netloc
                                        (if joined = [] then ''/'' else joined)
                                        params query fragment))))))))"

text \<open>
  \<^verbatim>\<open>TextResponse\<close> with the given base URL and document root. \<^verbatim>\<open>follow(url, callback)\<close> is
  \<^verbatim>\<open>Request(self.urljoin(url), callback)\<close>. The constructor of Scrapy's \<^verbatim>\<open>Request\<close> escapes
  the URL it is given and raises for one it does not accept; it is outside the model and is
  taken as the parameter \<open>request\<close>, from the URL and the callback to the request built
  or the exception raised.
\<close>

definition text_response ::
  "url_checks \<Rightarrow> (string \<Rightarrow> callback \<Rightarrow> error + request) \<Rightarrow> string \<Rightarrow> selector \<Rightarrow> response" where
  "text_response chk request base root =
     \<lparr>css = sel_css root,
      urljoin = py_urljoin chk base,
      follow = (\<lambda>url cb.
        case py_urljoin chk base (Some url) of
          Inl e \<Rightarrow> Inl e
        | Inr None \<Rightarrow> Inl TypeError
        | Inr (Some u) \<Rightarrow> request u cb)\<rparr>"

section \<open>Example pages\<close>

text \<open>
  Documents are built from \<open>text_node\<close>, a selected text or attribute value, and
  \<open>element\<close>, which answers each query of its table with the listed selectors and every
  other query with no match.
\<close>

definition text_node :: "string \<Rightarrow> selector" where
  "text_node s = Selector s (\<lambda>_. [])"

definition element :: "(string \<times> selector list) list \<Rightarrow> selector" where
  "element table = Selector [] (\<lambda>q. case map_of table q of None \<Rightarrow> [] | Some sl \<Rightarrow> sl)"

definition example_base :: string where
  "example_base = ''https://example-beauty-site.com/products''"

definition product_lipstick :: selector where
  "product_lipstick = element
     [(''.product-name::text'', [text_node ''Lipstick'']),
      (''.product-price::text'', [text_node ''49.00'']),
      (''.product-rating::attr(data-rating)'', [text_node ''4.5'']),
      (''.product-image img::attr(src)'', [text_node ''/img/1.png'']),
      (''.product-description::text'', [text_node ''Matte red'']),
      (''.product-brand::text'', [text_node ''Acme'']),
      (''.product-category::text'', [text_node ''Lips'']),
      (''.product-link::attr(href)'', [text_node ''/p/1''])]"

text \<open>A product element without a price.\<close>

definition product_no_price :: selector where
  "product_no_price = element
     [(''.product-name::text'', [text_node ''Mascara'']),
      (''.product-rating::attr(data-rating)'', [text_node ''4.0'']),
      (''.product-image img::attr(src)'', [text_node ''/img/2.png'']),
      (''.product-description::text'', [text_node ''Black'']),
      (''.product-brand::text'', [text_node ''Acme'']),
      (''.product-category::text'', [text_node ''Eyes'']),
      (''.product-link::attr(href)'', [text_node ''/p/2''])]"

text \<open>A product element without a product link.\<close>

definition product_no_link :: selector where
  "product_no_link = element
     [(''.product-name::text'', [text_node ''Serum'']),
      (''.product-price::text'', [text_node ''120.00'']),
      (''.product-rating::attr(data-rating)'', [text_node ''3.9'']),
      (''.product-image img::attr(src)'', [text_node ''/img/3.png'']),
      (''.product-description::text'', [text_node ''Vitamin C'']),
      (''.product-brand::text'', [text_node ''Acme'']),
      (''.product-category::text'', [text_node ''Skin''])]"

text \<open>A product element whose link opens a bracketed host and never closes it.\<close>

definition product_bad_link :: selector where
  "product_bad_link = element
     [(''.product-name::text'', [text_node ''Toner'']),
      (''.product-price::text'', [text_node ''35.00'']),
      (''.product-rating::attr(data-rating)'', [text_node ''4.1'']),
      (''.product-image img::attr(src)'', [text_node ''/img/4.png'']),
      (''.product-description::text'', [text_node ''Rose water'']),
      (''.product-brand::text'', [text_node ''Acme'']),
      (''.product-category::text'', [text_node ''Skin'']),
      (''.product-link::attr(href)'', [text_node ''http://[shop/p/4''])]"

definition page_with_next :: selector where
  "page_with_next = element
     [(''.product-item'', [product_lipstick, product_no_price]),
      (''.next-page::attr(href)'', [text_node ''/page/2''])]"

definition page_two_products :: selector where
  "page_two_products = element [(''.product-item'', [product_lipstick, product_no_price])]"

definition page_price_fault :: selector where
  "page_price_fault = element
     [(''.product-item'', [product_no_price, product_bad_link, product_lipstick])]"

definition page_no_link :: selector where
  "page_no_link = element [(''.product-item'', [product_no_link])]"

definition page_two_faults :: selector where
  "page_two_faults = element
     [(''.product-item'', [product_no_link, product_bad_link, product_lipstick])]"

definition page_empty_href :: selector where
  "page_empty_href = element
     [(''.product-item'', [product_lipstick]),
      (''.next-page::attr(href)'', [text_node []])]"

definition page_bad_link :: selector where
  "page_bad_link = element
     [(''.product-item'', [product_lipstick, product_bad_link, product_no_price]),
      (''.next-page::attr(href)'', [text_node ''/page/2''])]"

text \<open>
  The responses for these pages, all fetched from \<open>example_base\<close>. No host in them is
  bracketed and well-formed or has a non-ASCII character, so the two validations left
  open are never consulted; \<open>accept_all\<close> fills them in. All pages but \<open>page_with_next\<close>
  build no request, whatever the constructor: their responses are given one that would
  raise \<^verbatim>\<open>TypeError\<close> if it were called. The response of \<open>page_with_next\<close> keeps the
  constructor as a parameter.
\<close>

definition accept_all :: url_checks where
  "accept_all = \<lparr>bracketed_host_ok = (\<lambda>_. True), nfkc_netloc_ok = (\<lambda>_. True)\<rparr>"

definition no_request :: "string \<Rightarrow> callback \<Rightarrow> error + request" where
  "no_request url cb = Inl TypeError"


definition response_two_products :: response where
  "response_two_products = text_response accept_all no_request example_base page_two_products"





definition response_bad_link :: response where
  "response_bad_link = text_response accept_all no_request example_base page_bad_link"

section \<open>Properties of the affiliate linker\<close>

lemma dom_init: "dom (affiliate_ids init) = {''sephora'', ''amazon'', ''namshi''}"
  by (auto simp: init_def split: if_splits)

lemma generate_link_cases:
  "generate_link self platform url =
     (case affiliate_ids self platform of
        None \<Rightarrow> Inr url
      | Some aid \<Rightarrow>
          if platform = ''sephora'' then
            Inr (url @ (if CHR ''?'' \<in> set url then ''&'' else ''?'') @ ''affiliate='' @ aid)
          else if platform = ''amazon'' then Inr (url @ ''?tag='' @ aid)
          else Inr url)"
  by (auto simp: generate_link_def subscript_def Let_def domIff split: option.splits)

text \<open>
  C2. For the amazon platform the suffix \<open>?tag=<affiliate id>\<close> is appended whatever the
  product URL contains; a product URL that already has a \<open>?\<close> therefore yields a result
  with at least two of them.
\<close>

theorem generate_link_amazon:
  "affiliate_ids self ''amazon'' = Some affiliate_id \<Longrightarrow>
     generate_link self ''amazon'' product_url = Inr (product_url @ ''?tag='' @ affiliate_id) \<and>
     (CHR ''?'' \<in> set product_url \<longrightarrow>
        2 \<le> count_list (product_url @ ''?tag='' @ affiliate_id) CHR ''?'')"
proof -
  assume a: "affiliate_ids self ''amazon'' = Some affiliate_id"
  have r: "generate_link self ''amazon'' product_url = Inr (product_url @ ''?tag='' @ affiliate_id)"
    by (simp add: generate_link_cases a)
  have c: "2 \<le> count_list (product_url @ ''?tag='' @ affiliate_id) CHR ''?''"
    if "CHR ''?'' \<in> set product_url"
  proof -
    from that have "0 < count_list product_url CHR ''?''"
      using count_list_0_iff [of product_url "CHR ''?''"] by simp
    then show ?thesis by simp
  qed
  from r c show ?thesis by blast
qed

theorem generate_link_amazon_witness:
  "generate_link init ''amazon'' ''https://amazon.ae/p/1?x=1'' =
     Inr ''https://amazon.ae/p/1?x=1?tag=your_amazon_affiliate_id'' \<and>
   2 \<le> count_list ''https://amazon.ae/p/1?x=1?tag=your_amazon_affiliate_id'' CHR ''?'' \<and>
   generate_link init ''amazon'' ''https://amazon.ae/p/1'' =
     Inr ''https://amazon.ae/p/1?tag=your_amazon_affiliate_id''"
proof -
  have a: "affiliate_ids init ''amazon'' = Some ''your_amazon_affiliate_id''"
    by (simp add: init_def)
  show ?thesis
    using generate_link_amazon [OF a, of "''https://amazon.ae/p/1?x=1''"]
      generate_link_amazon [OF a, of "''https://amazon.ae/p/1''"]
    by simp
qed

text \<open>
  C3. For the sephora platform the parameter \<open>affiliate=<affiliate id>\<close> is appended, after
  \<open>&\<close> when the product URL contains a \<open>?\<close> anywhere and after \<open>?\<close> otherwise. The two
  examples of the specification are the witness.
\<close>

theorem generate_link_sephora:
  "affiliate_ids self ''sephora'' = Some affiliate_id \<Longrightarrow>
     generate_link self ''sephora'' product_url =
       Inr (product_url @ (if CHR ''?'' \<in> set product_url then ''&'' else ''?'') @
            ''affiliate='' @ affiliate_id)"
  by (simp add: generate_link_cases)

theorem generate_link_sephora_witness:
  "generate_link init ''sephora'' ''https://sephora.com/p/1'' =
     Inr ''https://sephora.com/p/1?affiliate=your_sephora_affiliate_id'' \<and>
   generate_link init ''sephora'' ''https://sephora.com/p/1?color=red'' =
     Inr ''https://sephora.com/p/1?color=red&affiliate=your_sephora_affiliate_id''"
proof -
  have a: "affiliate_ids init ''sephora'' = Some ''your_sephora_affiliate_id''"
    by (simp add: init_def)
  show ?thesis
    using generate_link_sephora [OF a, of "''https://sephora.com/p/1''"]
      generate_link_sephora [OF a, of "''https://sephora.com/p/1?color=red''"]
    by simp
qed

text \<open>
  C4. A platform that is not a key of the table gets the product URL back unchanged; the
  keys of the default table are sephora, amazon and namshi.
\<close>

theorem generate_link_unknown:
  "dom (affiliate_ids init) = {''sephora'', ''amazon'', ''namshi''} \<and>
   (platform \<notin> dom (affiliate_ids self) \<longrightarrow>
      generate_link self platform product_url = Inr product_url)"
  by (simp add: dom_init generate_link_def)

theorem generate_link_unknown_witness:
  "''unknown'' \<notin> dom (affiliate_ids init) \<and>
   generate_link init ''unknown'' ''https://x.com/p/1'' = Inr ''https://x.com/p/1''"
proof -
  have a: "''unknown'' \<notin> dom (affiliate_ids init)"
    by (simp add: dom_init)
  show ?thesis
    using a generate_link_unknown [of "''unknown''" init "''https://x.com/p/1''"]
    by blast
qed

text \<open>
  C5. A platform that is a key of the table but is neither sephora nor amazon, such as
  namshi in the default table, gets the product URL back unchanged.
\<close>

theorem generate_link_unhandled:
  "platform \<in> dom (affiliate_ids self) \<Longrightarrow> platform \<noteq> ''sephora'' \<Longrightarrow>
   platform \<noteq> ''amazon'' \<Longrightarrow>
     generate_link self platform product_url = Inr product_url"
  by (auto simp: generate_link_cases split: option.splits)

theorem generate_link_unhandled_witness:
  "''namshi'' \<in> dom (affiliate_ids init) \<and>
   generate_link init ''namshi'' ''https://namshi.com/p/1'' = Inr ''https://namshi.com/p/1''"
proof -
  have a: "''namshi'' \<in> dom (affiliate_ids init)"
    by (simp add: dom_init)
  have b: "''namshi'' \<noteq> ''sephora''" and c: "''namshi'' \<noteq> ''amazon''"
    by simp_all
  show ?thesis
    using a generate_link_unhandled [OF a b c, of "''https://namshi.com/p/1''"]
    by simp
qed

text \<open>
  C6. \<^verbatim>\<open>generate_link\<close> is total: for every instance, platform and product URL it returns a
  string and raises nothing (the subscript after the membership test cannot fail). Its
  result is a function of its three arguments alone.
\<close>

theorem generate_link_total:
  "\<exists>r. generate_link self platform product_url = Inr r"
  by (simp add: generate_link_cases split: option.splits)

text \<open>
  The body run as a program returns what \<open>generate_link\<close> computes and leaves the
  instance as it found it: each of its steps is a membership test, a subscript or a
  return. A body with an assignment to the table does not have this property.
\<close>

lemma generate_link_method_run:
  "generate_link_method platform product_url self =
     (generate_link self platform product_url, self)"
  by (simp add: generate_link_method_def generate_link_def and_then_def returns_def
      dict_contains_def dict_getitem_def subscript_def Let_def split: option.splits)

lemma dict_setitem_changes:
  "affiliate_ids self key \<noteq> Some v \<Longrightarrow> snd (dict_setitem key v self) \<noteq> self"
proof
  assume a: "affiliate_ids self key \<noteq> Some v" and e: "snd (dict_setitem key v self) = self"
  from e have "affiliate_ids (snd (dict_setitem key v self)) key = affiliate_ids self key"
    by simp
  with a show False by (simp add: dict_setitem_def)
qed

lemma run_calls_run:
  "run_calls self calls = (map (\<lambda>(platform, url). generate_link self platform url) calls, self)"
  by (induction self calls rule: run_calls.induct) (simp_all add: generate_link_method_run)

text \<open>
  C9. No call of \<^verbatim>\<open>generate_link\<close> changes the table: after any sequence of calls on a
  fresh instance, \<^verbatim>\<open>affiliate_ids\<close> is the mapping that \<^verbatim>\<open>__init__\<close> established, and every
  call of the sequence returned what it returns on the fresh instance.
\<close>

theorem generate_link_frame:
  "affiliate_ids (snd (run_calls init calls)) =
     [''sephora'' \<mapsto> ''your_sephora_affiliate_id'',
      ''amazon'' \<mapsto> ''your_amazon_affiliate_id'',
      ''namshi'' \<mapsto> ''your_namshi_affiliate_id''] \<and>
   fst (run_calls init calls) =
     map (\<lambda>(platform, product_url). generate_link init platform product_url) calls"
  by (simp add: run_calls_run) (simp add: init_def)

text \<open>
  C10. The result of \<^verbatim>\<open>generate_link\<close> always starts with the product URL: it is the
  product URL, possibly followed by a suffix.
\<close>

theorem generate_link_prefix:
  "\<exists>r. generate_link self platform product_url = Inr r \<and> prefix product_url r"
  by (simp add: generate_link_cases split: option.splits)

section \<open>Properties of the extractor\<close>


lemma get_Cons: "get (s # ss) = Some (sel_get s)"
  by (simp add: get_def)

lemma item_eq:
  "item product url =
     map (\<lambda>(k, q). (k, get (sel_css product q))) text_fields @ [(''url'', url)]"
  by (simp add: item_def text_fields_def)

lemma item_text_field:
  "(k, q) \<in> set text_fields \<Longrightarrow> map_of (item product url) k = Some (get (sel_css product q))"
  by (auto simp: item_def text_fields_def)





lemma product_loop_records:
  "\<forall>p \<in> set products.
      \<exists>u. urljoin response (get (sel_css p ''.product-link::attr(href)'')) = Inr u \<Longrightarrow>
   snd (product_loop response products) = None \<and>
   list_all2 (record_of response) products (fst (product_loop response products))"
  by (induction products) (auto simp: record_of_def item_eq split: sum.splits prod.splits)



lemma parse_shape:
  "fst (parse response) = fst (product_loop response (css response ''.product-item'')) \<or>
   (\<exists>rq. fst (parse response) =
      fst (product_loop response (css response ''.product-item'')) @ [Follow rq])"
  by (cases "product_loop response (css response ''.product-item'')")
     (auto simp: parse_def split: option.splits sum.splits)

subsection \<open>URL resolution on the example pages\<close>

lemmas urllib_defs = py_urljoin_def urlparse_def urlsplit_def urlunparse_def urlunsplit_def
  splitnetloc_def splitparams_def checknetloc_def before_def after_def lower_def
  c0_control_or_space_def unsafe_url_byte_def is_ascii_def ascii_letter_def scheme_chars_def
  uses_relative_def uses_netloc_def uses_params_def squeeze_def resolve_step_def Let_def



lemma urljoin_example_p1:
  "py_urljoin chk example_base (Some ''/p/1'') = Inr (Some ''https://example-beauty-site.com/p/1'')"
  by (simp add: urllib_defs example_base_def)

lemma urljoin_example_p2:
  "py_urljoin chk example_base (Some ''/p/2'') = Inr (Some ''https://example-beauty-site.com/p/2'')"
  by (simp add: urllib_defs example_base_def)

lemma urljoin_example_bad:
  "py_urljoin chk example_base (Some ''http://[shop/p/4'') = Inl ValueError"
  by (simp add: urllib_defs example_base_def)

lemmas page_defs = text_response_def element_def text_node_def get_def item_def
  page_with_next_def page_two_products_def page_no_link_def page_two_faults_def
  page_price_fault_def page_empty_href_def page_bad_link_def
  product_lipstick_def product_no_price_def product_no_link_def product_bad_link_def



lemma parse_page_two_products:
  "parse (text_response chk request example_base page_two_products) =
     ([Item [(''name'', Some ''Lipstick''), (''price'', Some ''49.00''), (''rating'', Some ''4.5''),
             (''image_url'', Some ''/img/1.png''), (''description'', Some ''Matte red''),
             (''brand'', Some ''Acme''), (''category'', Some ''Lips''),
             (''url'', Some ''https://example-beauty-site.com/p/1'')],
       Item [(''name'', Some ''Mascara''), (''price'', None), (''rating'', Some ''4.0''),
             (''image_url'', Some ''/img/2.png''), (''description'', Some ''Black''),
             (''brand'', Some ''Acme''), (''category'', Some ''Eyes''),
             (''url'', Some ''https://example-beauty-site.com/p/2'')]], None)"
  by (simp add: parse_def page_defs urljoin_example_p1 urljoin_example_p2)



lemma parse_page_bad_link:
  "parse (text_response chk request example_base page_bad_link) =
     ([Item [(''name'', Some ''Lipstick''), (''price'', Some ''49.00''), (''rating'', Some ''4.5''),
             (''image_url'', Some ''/img/1.png''), (''description'', Some ''Matte red''),
             (''brand'', Some ''Acme''), (''category'', Some ''Lips''),
             (''url'', Some ''https://example-beauty-site.com/p/1'')]], Some ValueError)"
  by (simp add: parse_def page_defs urljoin_example_p1 urljoin_example_bad)

subsection \<open>A field whose sub-element is missing\<close>




subsection \<open>One record per product element\<close>

text \<open>
  C8, as the claim states it, fails on a page where \<^verbatim>\<open>response.urljoin\<close> raises: three
  product elements match, the link of the second cannot be parsed as a URL, and \<^verbatim>\<open>parse\<close>
  yields the record of the first element only and ends with \<^verbatim>\<open>ValueError\<close>.
\<close>

theorem bad_link_counterexample:
  "css response_bad_link ''.product-item'' =
     [product_lipstick, product_bad_link, product_no_price] \<and>
   parse response_bad_link =
     ([Item [(''name'', Some ''Lipstick''), (''price'', Some ''49.00''), (''rating'', Some ''4.5''),
             (''image_url'', Some ''/img/1.png''), (''description'', Some ''Matte red''),
             (''brand'', Some ''Acme''), (''category'', Some ''Lips''),
             (''url'', Some ''https://example-beauty-site.com/p/1'')]], Some ValueError)"
  by (simp add: response_bad_link_def parse_page_bad_link)
     (simp add: text_response_def page_bad_link_def element_def)

text \<open>
  C8, amended. On a page where \<^verbatim>\<open>response.urljoin\<close> raises for no product element, \<^verbatim>\<open>parse\<close>
  yields one record per matched product element, in document order, followed by at most
  one request. Each record has exactly the eight keys name, price, rating, image_url,
  description, brand, category and url, in this order; the first seven hold the first
  match of their selector (the selected string when the selector matches) and url holds
  what \<^verbatim>\<open>response.urljoin\<close> returned for the product link.
\<close>

theorem parse_records:
  "\<forall>p \<in> set (css response ''.product-item'').
      \<exists>u. urljoin response (get (sel_css p ''.product-link::attr(href)'')) = Inr u \<Longrightarrow>
   (\<exists>ys. list_all2 (record_of response) (css response ''.product-item'') ys \<and>
         (fst (parse response) = ys \<or> (\<exists>rq. fst (parse response) = ys @ [Follow rq]))) \<and>
   map fst (map (\<lambda>(k, q). (k, get (sel_css product q))) text_fields @ [(''url'', url)]) =
     [''name'', ''price'', ''rating'', ''image_url'', ''description'', ''brand'', ''category'',
      ''url''] \<and>
   get (s # ss) = Some (sel_get s)"
  using product_loop_records [of "css response ''.product-item''" response]
    parse_shape [of response]
  by (simp add: text_fields_def get_Cons) blast

theorem parse_records_witness:
  "css response_two_products ''.product-item'' = [product_lipstick, product_no_price] \<and>
   (\<exists>ys. list_all2 (record_of response_two_products) [product_lipstick, product_no_price] ys \<and>
         fst (parse response_two_products) = ys) \<and>
   parse response_two_products =
     ([Item [(''name'', Some ''Lipstick''), (''price'', Some ''49.00''), (''rating'', Some ''4.5''),
             (''image_url'', Some ''/img/1.png''), (''description'', Some ''Matte red''),
             (''brand'', Some ''Acme''), (''category'', Some ''Lips''),
             (''url'', Some ''https://example-beauty-site.com/p/1'')],
       Item [(''name'', Some ''Mascara''), (''price'', None), (''rating'', Some ''4.0''),
             (''image_url'', Some ''/img/2.png''), (''description'', Some ''Black''),
             (''brand'', Some ''Acme''), (''category'', Some ''Eyes''),
             (''url'', Some ''https://example-beauty-site.com/p/2'')]], None)"
proof -
  have c: "css response_two_products ''.product-item'' = [product_lipstick, product_no_price]"
    by (simp add: response_two_products_def text_response_def page_two_products_def element_def)
  have h: "\<forall>p \<in> set (css response_two_products ''.product-item'').
      \<exists>u. urljoin response_two_products (get (sel_css p ''.product-link::attr(href)'')) = Inr u"
    unfolding c
    by (simp add: response_two_products_def text_response_def product_lipstick_def
        product_no_price_def element_def text_node_def get_def urljoin_example_p1
        urljoin_example_p2)
  have v: "parse response_two_products =
     ([Item [(''name'', Some ''Lipstick''), (''price'', Some ''49.00''), (''rating'', Some ''4.5''),
             (''image_url'', Some ''/img/1.png''), (''description'', Some ''Matte red''),
             (''brand'', Some ''Acme''), (''category'', Some ''Lips''),
             (''url'', Some ''https://example-beauty-site.com/p/1'')],
       Item [(''name'', Some ''Mascara''), (''price'', None), (''rating'', Some ''4.0''),
             (''image_url'', Some ''/img/2.png''), (''description'', Some ''Black''),
             (''brand'', Some ''Acme''), (''category'', Some ''Eyes''),
             (''url'', Some ''https://example-beauty-site.com/p/2'')]], None)"
    by (simp only: response_two_products_def parse_page_two_products)
  from parse_records [OF h] obtain ys where
    r: "list_all2 (record_of response_two_products)
          (css response_two_products ''.product-item'') ys"
    and p: "fst (parse response_two_products) = ys \<or>
      (\<exists>rq. fst (parse response_two_products) = ys @ [Follow rq])"
    by blast
  from r have n: "length ys = 2"
    by (simp add: c list_all2_lengthD [symmetric])
  have e: "fst (parse response_two_products) = ys"
    using p n by (auto simp: v)
  from c r e v show ?thesis by auto
qed

subsection \<open>The continuation\<close>




end
